theory Spec2Isabelle
  imports Complex_Main "HOL-Library.Word"
begin

section \<open>Values carried by requests\<close>

text \<open>
  A JavaScript string is a sequence of UTF-16 code units; \<open>length\<close> counts code units.
  Messages that the server writes itself are ASCII literals and are kept as HOL strings.
\<close>

type_synonym jsstring = "16 word list"

text \<open>
  A finite JavaScript number is an IEEE 754 double, given here by its value; negative zero
  prints as zero and is not told apart from it. A numeric literal that is too large
  reads as an infinity.
\<close>

typedef js_double =
  "{q :: rat. \<exists>(m :: int) (e :: int).
      \<bar>m\<bar> < 2 ^ 53 \<and> - 1074 \<le> e \<and> e \<le> 971 \<and> q = of_int m * 2 powi e}"
proof
  have "(0 :: rat) = of_int 0 * 2 powi 0" by simp
  then show "(0 :: rat) \<in> {q. \<exists>(m :: int) (e :: int).
      \<bar>m\<bar> < 2 ^ 53 \<and> - 1074 \<le> e \<and> e \<le> 971 \<and> q = of_int m * 2 powi e}"
    by force
qed

datatype js_number = Finite js_double | PlusInfinity | MinusInfinity

text \<open>
  A JSON text, by its tree: the members of an object in the order written, a key
  possibly more than once; a number by the JavaScript number that its literal reads as.
  Insignificant whitespace, escapes and the spelling of a number are not part of the tree,
  so two texts with different trees differ as bytes. A field that is absent from a body
  reads as \<open>undefined\<close>; that is \<open>None\<close> of an option.
\<close>

datatype json =
    JNull
  | JBool bool
  | JNum js_number
  | JStr jsstring
  | JArr "json list"
  | JObj "(jsstring \<times> json) list"








text \<open>
  The code points that \<open>String.prototype.trim\<close> removes: ECMAScript WhiteSpace and
  LineTerminator.
\<close>

definition js_whitespace :: "16 word \<Rightarrow> bool" where
  "js_whitespace c =
     ((0x0009 \<le> c \<and> c \<le> 0x000D) \<or> c = 0x0020 \<or> c = 0x00A0 \<or> c = 0x1680
      \<or> (0x2000 \<le> c \<and> c \<le> 0x200A) \<or> c = 0x2028 \<or> c = 0x2029 \<or> c = 0x202F
      \<or> c = 0x205F \<or> c = 0x3000 \<or> c = 0xFEFF)"

definition js_trim :: "jsstring \<Rightarrow> jsstring" where
  "js_trim s = rev (dropWhile js_whitespace (rev (dropWhile js_whitespace s)))"

text \<open>
  \<open>v.trim()\<close> for a JSON value \<open>v\<close>: a string is trimmed; on \<open>null\<close> the property
  read throws a TypeError, and on every other JSON value \<open>trim\<close> is not a function, so
  the call throws a TypeError as well. \<open>None\<close> is the throw.
\<close>

fun call_trim :: "json \<Rightarrow> jsstring option" where
  "call_trim (JStr s) = Some (js_trim s)"
| "call_trim _ = None"

section \<open>The record store\<close>

text \<open>
  Modelled from the spec: the relational store (tables \<open>tldraw_drawings\<close> and
  \<open>user_profiles\<close>) is an external service reached through the Supabase client; neither
  its code nor the tables' declarations are in the sources. A document record is
  \<open>{id, ownerId, name, snapshot}\<close> and the snapshot is stored and returned as it was
  given; the store is the rows it holds, and each query below is the filter that the
  handler writes. Columns that the database fills by itself (timestamps) are left out.
  Every call answers with either data or an error; a call can fail for reasons of the
  store itself (the \<open>fault\<close> argument of each operation), and a failed call leaves the
  rows as they were.
\<close>

record drawing =
  d_id :: string
  user_id :: string
  drawing_name :: jsstring
  snapshot :: json

record profile =
  p_id :: string
  p_email :: string
  full_name :: "string option"
  avatar_url :: "string option"

record db =
  drawings :: "drawing list"
  profiles :: "profile list"

datatype store_error = StoreFault | NotSingleRow | Conflict

text \<open>\<open>.single()\<close>: exactly one row, else an error.\<close>

fun single :: "'a list \<Rightarrow> store_error + 'a" where
  "single [x] = Inr x"
| "single _ = Inl NotSingleRow"

text \<open>\<open>from('tldraw_drawings').select('*').eq('id', cid).eq('user_id', uid).single()\<close>\<close>

definition select_drawing :: "db \<Rightarrow> bool \<Rightarrow> string \<Rightarrow> string \<Rightarrow> store_error + drawing" where
  "select_drawing s fault cid uid =
     (if fault then Inl StoreFault
      else single (filter (\<lambda>d. d_id d = cid \<and> user_id d = uid) (drawings s)))"

text \<open>
  The object that the update handler builds: only the supplied fields are present.
\<close>

record update_data =
  upd_snapshot :: "json option"
  upd_drawing_name :: "jsstring option"

definition apply_update :: "update_data \<Rightarrow> drawing \<Rightarrow> drawing" where
  "apply_update u d =
     d\<lparr>snapshot := (case upd_snapshot u of None \<Rightarrow> snapshot d | Some v \<Rightarrow> v),
       drawing_name := (case upd_drawing_name u of None \<Rightarrow> drawing_name d | Some n \<Rightarrow> n)\<rparr>"

text \<open>
  \<open>from('tldraw_drawings').update(u).eq('id', cid).select().single()\<close>: the filter is
  on the id alone. When the rows touched are not exactly one, the store answers with an
  error and the change is rolled back.
\<close>

definition update_drawing ::
  "db \<Rightarrow> bool \<Rightarrow> string \<Rightarrow> update_data \<Rightarrow> db \<times> (store_error + drawing)" where
  "update_drawing s fault cid u =
     (if fault then (s, Inl StoreFault)
      else (case single (filter (\<lambda>d. d_id d = cid) (drawings s)) of
              Inl e \<Rightarrow> (s, Inl e)
            | Inr d \<Rightarrow>
                (s\<lparr>drawings := map (\<lambda>x. if d_id x = cid then apply_update u x else x) (drawings s)\<rparr>,
                 Inr (apply_update u d))))"

text \<open>\<open>from('tldraw_drawings').delete().eq('id', cid).eq('user_id', uid)\<close>\<close>

definition delete_drawing :: "db \<Rightarrow> bool \<Rightarrow> string \<Rightarrow> string \<Rightarrow> db \<times> store_error option" where
  "delete_drawing s fault cid uid =
     (if fault then (s, Some StoreFault)
      else (s\<lparr>drawings := filter (\<lambda>d. \<not> (d_id d = cid \<and> user_id d = uid)) (drawings s)\<rparr>, None))"

section \<open>Session tokens\<close>

text \<open>
  Modelled from the spec: the token library (\<open>jsonwebtoken\<close>) is an external package
  and its code is not in the sources. A session token is the claims \<open>{userId, email}\<close>
  with the time of issue and the expiry, signed with the server's secret; its validity is
  a function of signature and expiry alone. A token is modelled by what it carries: the
  payload and the key it was signed with, so that a signature is valid exactly when the
  verifier's secret is that key. The clock is \<open>Date.now()\<close>, in milliseconds; the
  library stamps and compares whole seconds, and a token counts as expired from the
  second \<open>exp\<close> on.
\<close>

record claims =
  userId :: string
  email :: string
  iat :: nat
  exp :: nat

record jwt =
  payload :: claims
  signed_with :: string

text \<open>
  What a request presents as a token: the compact form of some token, or any other
  string.
\<close>

datatype token_string = Garbage string | Compact jwt

text \<open>Only the empty string is falsy.\<close>

fun truthy :: "token_string \<Rightarrow> bool" where
  "truthy (Garbage g) = (g \<noteq> [])"
| "truthy (Compact t) = True"

text \<open>\<open>7d\<close> in seconds.\<close>

definition seven_days :: nat where
  "seven_days = 7 * 24 * 60 * 60"

text \<open>
  \<open>jwt.sign(payload, secret, {expiresIn: '7d'})\<close>: throws on a missing secret (\<open>None\<close>);
  otherwise \<open>iat\<close> is the clock in seconds and \<open>exp\<close> is \<open>iat\<close> plus the lifetime.
\<close>

definition jwt_sign :: "string \<Rightarrow> nat \<Rightarrow> string \<Rightarrow> string \<Rightarrow> jwt option" where
  "jwt_sign secret now_ms uid mail =
     (if secret = [] then None
      else Some \<lparr>payload = \<lparr>userId = uid, email = mail, iat = now_ms div 1000,
                              exp = now_ms div 1000 + seven_days\<rparr>,
                  signed_with = secret\<rparr>)"

text \<open>
  \<open>jwt.verify(token, secret)\<close>: throws (\<open>None\<close>) on a malformed token, a missing secret,
  a signature made with another key, and when the clock in seconds has reached \<open>exp\<close>;
  otherwise it returns the payload.
\<close>

fun jwt_verify :: "string \<Rightarrow> nat \<Rightarrow> token_string \<Rightarrow> claims option" where
  "jwt_verify secret now_ms (Garbage g) = None"
| "jwt_verify secret now_ms (Compact t) =
     (if secret = [] then None
      else if signed_with t \<noteq> secret then None
      else if exp (payload t) \<le> now_ms div 1000 then None
      else Some (payload t))"

text \<open>The user record that the identity store returns.\<close>

record auth_user =
  au_id :: string
  au_email :: string
  au_created_at :: string

text \<open>\<open>generateToken(user)\<close>\<close>

definition generateToken :: "string \<Rightarrow> nat \<Rightarrow> auth_user \<Rightarrow> jwt option" where
  "generateToken secret now_ms user = jwt_sign secret now_ms (au_id user) (au_email user)"

section \<open>Responses\<close>

datatype body =
    ErrorBody string
  | MessageBody string
  | CanvasBody drawing
  | AuthBody string string string jwt
  | MeBody profile "drawing list"

record response =
  status :: nat
  body :: body
  set_cookie :: "jwt option"

text \<open>\<open>res.status(st).json(b)\<close>; \<open>res.json(b)\<close> alone answers with status 200.\<close>

definition reply :: "nat \<Rightarrow> body \<Rightarrow> response" where
  "reply st b = \<lparr>status = st, body = b, set_cookie = None\<rparr>"

section \<open>The access guard\<close>

text \<open>
  The part of a request that \<open>verifyToken\<close> reads: the cookie named \<open>token\<close> and the
  \<open>Authorization\<close> header, the latter given as the pieces that \<open>split(' ')\<close> yields.
\<close>

record auth_request =
  cookie_token :: "token_string option"
  authorization :: "token_string list option"

text \<open>\<open>req.cookies.token || req.headers.authorization?.split(' ')[1]\<close>\<close>

definition presented_token :: "auth_request \<Rightarrow> token_string option" where
  "presented_token r =
     (let from_header =
            (case authorization r of
               None \<Rightarrow> None
             | Some parts \<Rightarrow> if 1 < length parts then Some (parts ! 1) else None)
      in case cookie_token r of
           None \<Rightarrow> from_header
         | Some c \<Rightarrow> if truthy c then Some c else from_header)"

text \<open>
  \<open>verifyToken(req, res, next)\<close>: \<open>Inl\<close> is the response that ends the request, \<open>Inr\<close> is
  \<open>next()\<close> with \<open>req.user\<close> set to the decoded payload.
\<close>

definition verifyToken :: "string \<Rightarrow> nat \<Rightarrow> auth_request \<Rightarrow> response + claims" where
  "verifyToken secret now_ms r =
     (case presented_token r of
        None \<Rightarrow> Inl (reply 401 (ErrorBody ''No token provided''))
      | Some t \<Rightarrow>
          if \<not> truthy t then Inl (reply 401 (ErrorBody ''No token provided''))
          else (case jwt_verify secret now_ms t of
                  None \<Rightarrow> Inl (reply 401 (ErrorBody ''Invalid token''))
                | Some decoded \<Rightarrow> Inr decoded))"

section \<open>Account handlers\<close>

text \<open>
  The identity store is external as well. Its answer to a call is \<open>{data, error}\<close>, one
  of the two being set; the handlers take the store as the function from the credentials
  they pass to the answer they get.
\<close>

datatype auth_reply = AuthError string | AuthOk auth_user

text \<open>
  The body of a sign-up or sign-in request after destructuring. The client sends both
  fields as strings; \<open>None\<close> is a field that is absent.
\<close>

record credentials =
  c_email :: "jsstring option"
  c_password :: "jsstring option"

text \<open>\<open>!v\<close> for an optional string: absent or empty.\<close>

fun falsy :: "jsstring option \<Rightarrow> bool" where
  "falsy None = True"
| "falsy (Some v) = (v = [])"

text \<open>
  \<open>from('user_profiles').insert(row)\<close>. Modelled from the spec: the profile is the
  companion record of an identity, keyed by the identity's id, so a second row for the same
  id is refused.
\<close>

definition insert_profile :: "db \<Rightarrow> bool \<Rightarrow> profile \<Rightarrow> db \<times> store_error option" where
  "insert_profile s fault row =
     (if fault then (s, Some StoreFault)
      else if p_id row \<in> set (map p_id (profiles s)) then (s, Some Conflict)
      else (s\<lparr>profiles := profiles s @ [row]\<rparr>, None))"

text \<open>\<open>from('user_profiles').select(...).eq('id', uid).single()\<close>\<close>

definition select_profile :: "db \<Rightarrow> bool \<Rightarrow> string \<Rightarrow> store_error + profile" where
  "select_profile s fault uid =
     (if fault then Inl StoreFault
      else single (filter (\<lambda>p. p_id p = uid) (profiles s)))"

definition new_profile :: "auth_user \<Rightarrow> profile" where
  "new_profile u = \<lparr>p_id = au_id u, p_email = au_email u, full_name = None, avatar_url = None\<rparr>"

text \<open>The success response of sign-up and sign-in: cookie and \<open>res.json\<close>.\<close>

definition auth_success :: "auth_user \<Rightarrow> jwt \<Rightarrow> response" where
  "auth_success u tok =
     \<lparr>status = 200, body = AuthBody (au_id u) (au_email u) (au_created_at u) tok,
      set_cookie = Some tok\<rparr>"

text \<open>
  \<open>app.post('/api/auth/signup')\<close>. \<open>create_user\<close> is \<open>supabase.auth.admin.createUser\<close>,
  \<open>pfault\<close> a failure of the profile insert. A throw of \<open>generateToken\<close> lands in the
  handler's \<open>catch\<close>.
\<close>

definition post_signup ::
  "db \<Rightarrow> string \<Rightarrow> nat \<Rightarrow> (jsstring \<Rightarrow> jsstring \<Rightarrow> auth_reply) \<Rightarrow> bool \<Rightarrow> credentials
     \<Rightarrow> db \<times> response" where
  "post_signup s secret now_ms create_user pfault b =
     (case (c_email b, c_password b) of
        (Some mail, Some password) \<Rightarrow>
          if mail = [] \<or> password = []
          then (s, reply 400 (ErrorBody ''Email and password required''))
          else if length password < 6
          then (s, reply 400 (ErrorBody ''Password must be at least 6 characters''))
          else (case create_user mail password of
                  AuthError msg \<Rightarrow> (s, reply 400 (ErrorBody msg))
                | AuthOk u \<Rightarrow>
                    (let s' = fst (insert_profile s pfault (new_profile u))
                     in case generateToken secret now_ms u of
                          None \<Rightarrow> (s', reply 500 (ErrorBody ''Internal server error''))
                        | Some tok \<Rightarrow> (s', auth_success u tok)))
      | _ \<Rightarrow> (s, reply 400 (ErrorBody ''Email and password required'')))"

text \<open>
  \<open>app.post('/api/auth/signin')\<close>. \<open>sign_in\<close> is \<open>supabase.auth.signInWithPassword\<close>,
  \<open>fault1\<close> a failure of the profile query, \<open>fault2\<close> a failure of the profile insert.
\<close>

definition post_signin ::
  "db \<Rightarrow> string \<Rightarrow> nat \<Rightarrow> (jsstring \<Rightarrow> jsstring \<Rightarrow> auth_reply) \<Rightarrow> bool \<Rightarrow> bool \<Rightarrow> credentials
     \<Rightarrow> db \<times> response" where
  "post_signin s secret now_ms sign_in fault1 fault2 b =
     (case (c_email b, c_password b) of
        (Some mail, Some password) \<Rightarrow>
          if mail = [] \<or> password = []
          then (s, reply 400 (ErrorBody ''Email and password required''))
          else (case sign_in mail password of
                  AuthError msg \<Rightarrow> (s, reply 401 (ErrorBody msg))
                | AuthOk u \<Rightarrow>
                    (let s' = (case select_profile s fault1 (au_id u) of
                                 Inl e \<Rightarrow> fst (insert_profile s fault2 (new_profile u))
                               | Inr p \<Rightarrow> s)
                     in case generateToken secret now_ms u of
                          None \<Rightarrow> (s', reply 500 (ErrorBody ''Internal server error''))
                        | Some tok \<Rightarrow> (s', auth_success u tok)))
      | _ \<Rightarrow> (s, reply 400 (ErrorBody ''Email and password required'')))"

text \<open>
  \<open>app.get('/api/auth/me')\<close>: one query, the profile with the drawings that refer to it.
  The handler makes no other call to the store.
\<close>

definition get_me :: "db \<Rightarrow> bool \<Rightarrow> string \<Rightarrow> response" where
  "get_me s fault uid =
     (case select_profile s fault uid of
        Inl e \<Rightarrow> reply 404 (ErrorBody ''User not found'')
      | Inr data \<Rightarrow> reply 200 (MeBody data (filter (\<lambda>d. user_id d = uid) (drawings s))))"

section \<open>Canvas handlers\<close>

text \<open>
  The handlers run behind the \<open>verifyToken\<close> middleware; \<open>uid\<close> is \<open>req.user.userId\<close>
  and \<open>cid\<close> is \<open>req.params.id\<close>. A handler that only reads returns its response; one
  that writes returns the store as well.
\<close>

text \<open>\<open>app.get('/api/canvases/:id')\<close>\<close>

definition get_canvas :: "db \<Rightarrow> bool \<Rightarrow> string \<Rightarrow> string \<Rightarrow> response" where
  "get_canvas s fault uid cid =
     (case select_drawing s fault cid uid of
        Inl e \<Rightarrow> reply 404 (ErrorBody ''Canvas not found'')
      | Inr canvas \<Rightarrow> reply 200 (CanvasBody canvas))"

record patch_body =
  b_snapshot :: "json option"
  b_drawing_name :: "json option"


text \<open>
  The update object of the PATCH handler. \<open>None\<close> is the TypeError of
  \<open>drawing_name.trim()\<close> on a value that is not a string.
\<close>

definition build_update :: "patch_body \<Rightarrow> update_data option" where
  "build_update b =
     (case b_drawing_name b of
        None \<Rightarrow> Some \<lparr>upd_snapshot = b_snapshot b, upd_drawing_name = None\<rparr>
      | Some v \<Rightarrow>
          (case call_trim v of
             None \<Rightarrow> None
           | Some n \<Rightarrow> Some \<lparr>upd_snapshot = b_snapshot b, upd_drawing_name = Some n\<rparr>))"

text \<open>
  \<open>app.patch('/api/canvases/:id')\<close>. \<open>fault1\<close> is a failure of the ownership query,
  \<open>fault2\<close> a failure of the update; of the ownership query only the data is read, not
  the error.
\<close>

definition patch_canvas ::
  "db \<Rightarrow> bool \<Rightarrow> bool \<Rightarrow> string \<Rightarrow> string \<Rightarrow> patch_body \<Rightarrow> db \<times> response" where
  "patch_canvas s fault1 fault2 uid cid b =
     (case select_drawing s fault1 cid uid of
        Inl e \<Rightarrow> (s, reply 404 (ErrorBody ''Canvas not found''))
      | Inr existing \<Rightarrow>
          (case build_update b of
             None \<Rightarrow> (s, reply 500 (ErrorBody ''Internal server error''))
           | Some u \<Rightarrow>
               if upd_snapshot u = None \<and> upd_drawing_name u = None
               then (s, reply 400 (ErrorBody ''No fields to update''))
               else (case update_drawing s fault2 cid u of
                       (s', Inl e) \<Rightarrow> (s', reply 500 (ErrorBody ''Error updating canvas''))
                     | (s', Inr canvas) \<Rightarrow> (s', reply 200 (CanvasBody canvas)))))"

text \<open>\<open>app.delete('/api/canvases/:id')\<close>\<close>

definition delete_canvas :: "db \<Rightarrow> bool \<Rightarrow> string \<Rightarrow> string \<Rightarrow> db \<times> response" where
  "delete_canvas s fault uid cid =
     (case delete_drawing s fault cid uid of
        (s', Some e) \<Rightarrow> (s', reply 500 (ErrorBody ''Error deleting canvas''))
      | (s', None) \<Rightarrow> (s', reply 200 (MessageBody ''Canvas deleted successfully'')))"

text \<open>
  Modelled from the spec: a document's id identifies it, so the id column is the table's
  key and no two rows share an id.
\<close>

definition ids_unique :: "db \<Rightarrow> bool" where
  "ids_unique s = distinct (map d_id (drawings s))"

section \<open>The client's document session\<close>

text \<open>
  The state of the \<open>Canvas\<close> component as far as saving goes. \<open>editorRef\<close> is \<open>None\<close>
  until the editor has mounted; afterwards it holds what \<open>getSnapshot()\<close> returns at this
  moment. \<open>saveTimeoutRef\<close> is the handle kept in the ref, named by the deadline of the
  timer it stands for; \<open>timer_live\<close> says whether that timer is still to fire. The
  listener clears the timer of the ref before it arms a new one, so no other timer can be
  live. \<open>writes\<close> lists the calls of \<open>canvasApi.update\<close> in the order they were made and
  \<open>in_flight\<close> counts those that have not settled.
\<close>

datatype save_status = Saved | Saving | Unsaved

record session =
  clock :: nat
  canvas_id :: string
  editorRef :: "json option"
  saveStatus :: save_status
  error_msg :: string
  saveTimeoutRef :: "nat option"
  timer_live :: bool
  writes :: "(string \<times> json) list"
  in_flight :: nat

text \<open>The debounce interval of the listener, in milliseconds.\<close>

definition debounce :: nat where
  "debounce = 3000"

text \<open>
  \<open>saveCanvas\<close> up to its \<open>await\<close>: the status is set, the snapshot is read from the
  editor and the request is sent.
\<close>

definition saveCanvas :: "session \<Rightarrow> session" where
  "saveCanvas s =
     (case editorRef s of
        None \<Rightarrow> s
      | Some snap \<Rightarrow>
          if canvas_id s = [] then s
          else s\<lparr>saveStatus := Saving,
                 writes := writes s @ [(canvas_id s, snap)],
                 in_flight := Suc (in_flight s)\<rparr>)"

text \<open>\<open>saveCanvas\<close> after its \<open>await\<close>: the request has succeeded or failed.\<close>

definition settle :: "bool \<Rightarrow> session \<Rightarrow> session" where
  "settle ok s =
     (if in_flight s = 0 then s
      else if ok then s\<lparr>in_flight := in_flight s - 1, saveStatus := Saved\<rparr>
      else s\<lparr>in_flight := in_flight s - 1, error_msg := ''Failed to save canvas'',
             saveStatus := Unsaved\<rparr>)"

text \<open>\<open>handleManualSave\<close>\<close>

definition handleManualSave :: "session \<Rightarrow> session" where
  "handleManualSave s =
     saveCanvas (case saveTimeoutRef s of
                   None \<Rightarrow> s
                 | Some t \<Rightarrow> s\<lparr>timer_live := False, saveTimeoutRef := None\<rparr>)"

text \<open>The listener that \<open>handleMount\<close> registers with the editor's store.\<close>

definition on_change :: "session \<Rightarrow> session" where
  "on_change s =
     s\<lparr>saveStatus := Unsaved, saveTimeoutRef := Some (clock s + debounce), timer_live := True\<rparr>"

text \<open>
  What can happen to a session: the editor changes the document and notifies the
  listener; Ctrl+S or Cmd+S is pressed; the save button is clicked (it is disabled while
  the status is \<open>Saving\<close>); a request in flight settles; time passes. When time passes
  beyond the deadline of the live timer, the timer's callback runs \<open>saveCanvas\<close>; the ref
  keeps the spent handle.
\<close>

datatype event = Mutate json | KeyboardSave | ButtonClick | Settled bool | Wait nat

fun step :: "session \<Rightarrow> event \<Rightarrow> session" where
  "step s (Mutate v) =
     (case editorRef s of None \<Rightarrow> s | Some old \<Rightarrow> on_change (s\<lparr>editorRef := Some v\<rparr>))"
| "step s KeyboardSave = handleManualSave s"
| "step s ButtonClick = (if saveStatus s = Saving then s else handleManualSave s)"
| "step s (Settled ok) = settle ok s"
| "step s (Wait d) =
     (let s' = s\<lparr>clock := clock s + d\<rparr>
      in case saveTimeoutRef s of
           None \<Rightarrow> s'
         | Some t \<Rightarrow>
             if timer_live s \<and> t \<le> clock s + d then saveCanvas (s'\<lparr>timer_live := False\<rparr>)
             else s')"

definition run :: "session \<Rightarrow> event list \<Rightarrow> session" where
  "run s evs = foldl step s evs"

text \<open>The session right after the document \<open>doc\<close> of canvas \<open>cid\<close> has loaded and mounted.\<close>

definition loaded :: "string \<Rightarrow> json \<Rightarrow> session" where
  "loaded cid doc =
     \<lparr>clock = 0, canvas_id = cid, editorRef = Some doc, saveStatus = Saved, error_msg = [],
      saveTimeoutRef = None, timer_live = False, writes = [], in_flight = 0\<rparr>"

text \<open>
  A burst: each mutation comes with the time that has passed since the event before it.
\<close>

definition burst :: "(nat \<times> json) list \<Rightarrow> event list" where
  "burst ms = concat (map (\<lambda>(d, v). [Wait d, Mutate v]) ms)"

text \<open>
  The state right after the listener has run: the timer it armed is live and due one
  debounce interval from now.
\<close>

definition armed :: "session \<Rightarrow> bool" where
  "armed s = (editorRef s \<noteq> None \<and> timer_live s \<and> saveTimeoutRef s = Some (clock s + debounce))"

section \<open>Example data\<close>

definition alice_canvas :: drawing where
  "alice_canvas = \<lparr>d_id = ''d1'', user_id = ''alice'', drawing_name = [0x54, 0x72, 0x69, 0x70],
                    snapshot = JObj []\<rparr>"

definition alice_db :: db where
  "alice_db = \<lparr>drawings = [alice_canvas], profiles = []\<rparr>"





definition empty_db :: db where
  "empty_db = \<lparr>drawings = [], profiles = []\<rparr>"

definition carol :: auth_user where
  "carol = \<lparr>au_id = ''u1'', au_email = ''carol@example.org'',
            au_created_at = ''2024-01-01T00:00:00Z''\<rparr>"

text \<open>A form with a password of six code units, and one with a password of three.\<close>

definition carol_form :: credentials where
  "carol_form = \<lparr>c_email = Some [0x63, 0x40, 0x65],
                 c_password = Some [0x73, 0x65, 0x63, 0x72, 0x65, 0x74]\<rparr>"

definition short_form :: credentials where
  "short_form = \<lparr>c_email = Some [0x63, 0x40, 0x65], c_password = Some [0x61, 0x62, 0x63]\<rparr>"

text \<open>Three edits; the second and the third follow within the debounce interval.\<close>

definition three_edits :: "(nat \<times> json) list" where
  "three_edits = [(10000, JStr [0x61]), (2999, JStr [0x61, 0x62]),
                  (1500, JStr [0x61, 0x62, 0x63])]"

text \<open>A session whose debounced write is in flight.\<close>

definition saving_session :: session where
  "saving_session = run (loaded ''c1'' (JObj [])) [Mutate JNull, Wait 3000]"

section \<open>Ownership scoping of the canvas handlers\<close>

lemma filter_key_unique:
  "distinct (map f xs) \<Longrightarrow> x \<in> set xs \<Longrightarrow> filter (\<lambda>y. f y = f x) xs = [x]"
proof (induction xs)
  case Nil
  then show ?case by simp
next
  case (Cons y ys)
  show ?case
  proof (cases "y = x")
    case True
    with Cons.prems have "f x \<notin> f ` set ys" by simp
    then have "\<forall>z \<in> set ys. f z \<noteq> f x"
      by (metis imageI)
    then have "filter (\<lambda>z. f z = f x) ys = []"
      by (simp add: filter_empty_conv)
    with True show ?thesis by simp
  next
    case False
    with Cons.prems have xin: "x \<in> set ys" and "f y \<notin> f ` set ys" by auto
    then have "f y \<noteq> f x" by auto
    with Cons.IH Cons.prems xin show ?thesis by simp
  qed
qed

lemma filter_owner:
  assumes "ids_unique s" "d \<in> set (drawings s)"
  shows "filter (\<lambda>x. d_id x = d_id d \<and> user_id x = uid) (drawings s)
           = (if user_id d = uid then [d] else [])"
proof -
  have k: "filter (\<lambda>x. d_id x = d_id d) (drawings s) = [d]"
    using assms filter_key_unique [of d_id "drawings s" d] by (simp add: ids_unique_def)
  have "filter (\<lambda>x. d_id x = d_id d \<and> user_id x = uid) (drawings s)
          = filter (\<lambda>x. user_id x = uid) (filter (\<lambda>x. d_id x = d_id d) (drawings s))"
    by (simp add: conj_commute)
  with k show ?thesis by simp
qed

lemma select_drawing_owned:
  assumes "ids_unique s" "d \<in> set (drawings s)"
  shows "select_drawing s False (d_id d) (user_id d) = Inr d"
  using filter_owner [OF assms, of "user_id d"] by (simp add: select_drawing_def)

lemma select_drawing_foreign:
  assumes "ids_unique s" "d \<in> set (drawings s)" "user_id d \<noteq> uid"
  shows "\<exists>e. select_drawing s fault (d_id d) uid = Inl e"
  using filter_owner [OF assms(1,2), of uid] assms(3) by (simp add: select_drawing_def)

lemma delete_drawing_foreign:
  assumes "ids_unique s" "d \<in> set (drawings s)" "user_id d \<noteq> uid"
  shows "fst (delete_drawing s fault (d_id d) uid) = s"
proof -
  have "filter (\<lambda>x. d_id x = d_id d \<and> user_id x = uid) (drawings s) = []"
    using filter_owner [OF assms(1,2), of uid] assms(3) by simp
  then have "\<forall>x \<in> set (drawings s). \<not> (d_id x = d_id d \<and> user_id x = uid)"
    by (simp add: filter_empty_conv)
  then have "filter (\<lambda>x. \<not> (d_id x = d_id d \<and> user_id x = uid)) (drawings s) = drawings s"
    by (simp add: filter_id_conv)
  then show ?thesis by (simp add: delete_drawing_def)
qed

text \<open>
  C1, as the code has it. Let document \<open>d\<close> be owned by \<open>a\<close> and let \<open>b\<close> be another
  identity. Then \<open>get\<close> and \<open>update\<close> by \<open>b\<close> answer 404 "Canvas not found", whatever the
  fields and whether or not the store fails, and the store is unchanged. \<open>delete\<close> by
  \<open>b\<close> leaves the store unchanged as well, but it answers 200 with the success message
  (500 when the store itself fails), not 404.
\<close>

theorem non_owner_access:
  assumes "ids_unique s" and "d \<in> set (drawings s)" and "user_id d = a" and "b \<noteq> a"
  shows "get_canvas s f b (d_id d) = reply 404 (ErrorBody ''Canvas not found'')
       \<and> patch_canvas s f1 f2 b (d_id d) flds = (s, reply 404 (ErrorBody ''Canvas not found''))
       \<and> delete_canvas s f b (d_id d) =
           (s, if f then reply 500 (ErrorBody ''Error deleting canvas'')
               else reply 200 (MessageBody ''Canvas deleted successfully''))"
proof -
  have neq: "user_id d \<noteq> b" using assms(3,4) by simp
  obtain e where e: "select_drawing s f (d_id d) b = Inl e"
    using select_drawing_foreign [OF assms(1,2) neq] by blast
  obtain e1 where e1: "select_drawing s f1 (d_id d) b = Inl e1"
    using select_drawing_foreign [OF assms(1,2) neq] by blast
  have g: "get_canvas s f b (d_id d) = reply 404 (ErrorBody ''Canvas not found'')"
    by (simp add: get_canvas_def e)
  have p: "patch_canvas s f1 f2 b (d_id d) flds = (s, reply 404 (ErrorBody ''Canvas not found''))"
    by (simp add: patch_canvas_def e1)
  have "fst (delete_drawing s f (d_id d) b) = s"
    by (rule delete_drawing_foreign [OF assms(1,2) neq])
  moreover have "snd (delete_drawing s f (d_id d) b) = (if f then Some StoreFault else None)"
    by (simp add: delete_drawing_def)
  ultimately have dd: "delete_drawing s f (d_id d) b = (s, if f then Some StoreFault else None)"
    by (simp add: prod_eq_iff)
  have del: "delete_canvas s f b (d_id d) =
           (s, if f then reply 500 (ErrorBody ''Error deleting canvas'')
               else reply 200 (MessageBody ''Canvas deleted successfully''))"
    by (simp add: delete_canvas_def dd)
  from g p del show ?thesis by simp
qed

theorem non_owner_access_witness:
  "ids_unique alice_db \<and> alice_canvas \<in> set (drawings alice_db)
   \<and> user_id alice_canvas = ''alice'' \<and> ''bob'' \<noteq> ''alice''
   \<and> get_canvas alice_db False ''bob'' ''d1'' = reply 404 (ErrorBody ''Canvas not found'')
   \<and> patch_canvas alice_db False False ''bob'' ''d1''
        \<lparr>b_snapshot = Some JNull, b_drawing_name = None\<rparr>
       = (alice_db, reply 404 (ErrorBody ''Canvas not found''))
   \<and> delete_canvas alice_db False ''bob'' ''d1''
       = (alice_db, reply 200 (MessageBody ''Canvas deleted successfully''))"
proof -
  have h1: "ids_unique alice_db" by (simp add: ids_unique_def alice_db_def)
  have h2: "alice_canvas \<in> set (drawings alice_db)" by (simp add: alice_db_def)
  have h3: "user_id alice_canvas = ''alice''" by (simp add: alice_canvas_def)
  have h4: "''bob'' \<noteq> ''alice''" by simp
  have i: "d_id alice_canvas = ''d1''" by (simp add: alice_canvas_def)
  show ?thesis
    using h1 h2 h3 non_owner_access [OF h1 h2 h3 h4, of False False False
        "\<lparr>b_snapshot = Some JNull, b_drawing_name = None\<rparr>"]
    by (simp add: i)
qed

text \<open>
  C1 as stated fails for \<open>delete\<close>: a delete of alice's canvas by bob answers 200, not
  404.
\<close>

theorem delete_by_non_owner_succeeds:
  "user_id alice_canvas \<noteq> ''bob'' \<and> alice_canvas \<in> set (drawings alice_db)
   \<and> status (snd (delete_canvas alice_db False ''bob'' (d_id alice_canvas))) = 200
   \<and> status (snd (delete_canvas alice_db False ''bob'' (d_id alice_canvas))) \<noteq> 404"
  by (simp add: delete_canvas_def delete_drawing_def reply_def alice_db_def alice_canvas_def)

section \<open>Update, read back and delete\<close>


lemma apply_update_keys [simp]:
  "d_id (apply_update u x) = d_id x" "user_id (apply_update u x) = user_id x"
  by (simp_all add: apply_update_def)








text \<open>
  C10. An update by the owner of an existing document whose body has \<open>drawing_name: null\<close>
  answers 500 "Internal server error", whatever else the body holds: the ownership
  query succeeds, \<open>null\<close> counts as supplied, \<open>trim\<close> throws, and nothing is written.
\<close>

theorem patch_null_name:
  assumes "ids_unique s" and "d \<in> set (drawings s)" and "user_id d = uid"
  shows "patch_canvas s False f2 uid (d_id d) \<lparr>b_snapshot = snap, b_drawing_name = Some JNull\<rparr>
           = (s, reply 500 (ErrorBody ''Internal server error''))"
proof -
  have sel: "select_drawing s False (d_id d) uid = Inr d"
    using select_drawing_owned [OF assms(1,2)] assms(3) by simp
  have bu: "build_update \<lparr>b_snapshot = snap, b_drawing_name = Some JNull\<rparr> = None"
    by (simp add: build_update_def)
  show ?thesis by (simp add: patch_canvas_def sel bu)
qed

theorem patch_null_name_witness:
  "ids_unique alice_db \<and> alice_canvas \<in> set (drawings alice_db) \<and> user_id alice_canvas = ''alice''
   \<and> patch_canvas alice_db False False ''alice'' ''d1''
        \<lparr>b_snapshot = Some (JObj []), b_drawing_name = Some JNull\<rparr>
       = (alice_db, reply 500 (ErrorBody ''Internal server error''))"
proof -
  have h1: "ids_unique alice_db" by (simp add: ids_unique_def alice_db_def)
  have h2: "alice_canvas \<in> set (drawings alice_db)" by (simp add: alice_db_def)
  have h3: "user_id alice_canvas = ''alice''" by (simp add: alice_canvas_def)
  have i: "d_id alice_canvas = ''d1''" by (simp add: alice_canvas_def)
  show ?thesis
    using h1 h2 h3 patch_null_name [OF h1 h2 h3, of False "Some (JObj [])"] by (simp add: i)
qed

text \<open>
  C9. \<open>delete\<close> answers 500 exactly when the store fails and the success message
  otherwise, whether or not a row matches; when no row has the id and the owner, the store
  is left as it was; and a second delete gives the same store and the same answer as the
  first.
\<close>

theorem delete_silent:
  "snd (delete_canvas s f uid cid) =
     (if f then reply 500 (ErrorBody ''Error deleting canvas'')
      else reply 200 (MessageBody ''Canvas deleted successfully''))
   \<and> ((\<forall>d \<in> set (drawings s). \<not> (d_id d = cid \<and> user_id d = uid))
        \<longrightarrow> fst (delete_canvas s f uid cid) = s)
   \<and> delete_canvas (fst (delete_canvas s False uid cid)) False uid cid
       = delete_canvas s False uid cid"
proof -
  have a: "snd (delete_canvas s f uid cid) =
     (if f then reply 500 (ErrorBody ''Error deleting canvas'')
      else reply 200 (MessageBody ''Canvas deleted successfully''))"
    by (simp add: delete_canvas_def delete_drawing_def)
  have b: "fst (delete_canvas s f uid cid) = s"
    if "\<forall>d \<in> set (drawings s). \<not> (d_id d = cid \<and> user_id d = uid)"
  proof -
    from that have "filter (\<lambda>d. \<not> (d_id d = cid \<and> user_id d = uid)) (drawings s) = drawings s"
      by (simp add: filter_id_conv)
    then show ?thesis by (simp add: delete_canvas_def delete_drawing_def)
  qed
  have c: "delete_canvas (fst (delete_canvas s False uid cid)) False uid cid
       = delete_canvas s False uid cid"
    by (simp add: delete_canvas_def delete_drawing_def)
  from a b c show ?thesis by blast
qed

theorem delete_silent_witness:
  "delete_canvas alice_db False ''bob'' ''d1''
     = (alice_db, reply 200 (MessageBody ''Canvas deleted successfully''))
   \<and> delete_canvas alice_db False ''alice'' ''nothing''
     = (alice_db, reply 200 (MessageBody ''Canvas deleted successfully''))"
proof -
  have h1: "\<forall>d \<in> set (drawings alice_db). \<not> (d_id d = ''d1'' \<and> user_id d = ''bob'')"
    by (simp add: alice_db_def alice_canvas_def)
  have h2: "\<forall>d \<in> set (drawings alice_db). \<not> (d_id d = ''nothing'' \<and> user_id d = ''alice'')"
    by (simp add: alice_db_def alice_canvas_def)
  show ?thesis
    using h1 h2 delete_silent [of alice_db False "''bob''" "''d1''"]
      delete_silent [of alice_db False "''alice''" "''nothing''"]
    by (simp add: prod_eq_iff)
qed

section \<open>Token lifetime\<close>

lemma generateToken_Some:
  "secret \<noteq> [] \<Longrightarrow> generateToken secret t0 u =
     Some \<lparr>payload = \<lparr>userId = au_id u, email = au_email u, iat = t0 div 1000,
                       exp = t0 div 1000 + seven_days\<rparr>, signed_with = secret\<rparr>"
  by (simp add: generateToken_def jwt_sign_def)

text \<open>
  C6. With a secret configured, \<open>generateToken\<close> at clock \<open>t0\<close> yields a token, and a
  request that presents this token (by cookie or by header) passes \<open>verifyToken\<close> at
  clock \<open>t\<close> with the identity's claims exactly when \<open>t\<close>, in whole seconds, is before
  the token's \<open>exp\<close>, which is \<open>iat\<close> plus seven days; otherwise the answer is 401
  "Invalid token". In particular verification succeeds at \<open>t0\<close> itself and fails at the
  expiry instant.
\<close>

theorem token_lifetime:
  assumes "secret \<noteq> []"
  shows "\<exists>tok. generateToken secret t0 u = Some tok
           \<and> (\<forall>r t. presented_token r = Some (Compact tok) \<longrightarrow>
                 verifyToken secret t r =
                   (if t div 1000 < t0 div 1000 + seven_days
                    then Inr \<lparr>userId = au_id u, email = au_email u, iat = t0 div 1000,
                              exp = t0 div 1000 + seven_days\<rparr>
                    else Inl (reply 401 (ErrorBody ''Invalid token''))))
           \<and> verifyToken secret t0 \<lparr>cookie_token = Some (Compact tok), authorization = None\<rparr>
               = Inr \<lparr>userId = au_id u, email = au_email u, iat = t0 div 1000,
                      exp = t0 div 1000 + seven_days\<rparr>
           \<and> verifyToken secret (1000 * (t0 div 1000 + seven_days))
                \<lparr>cookie_token = Some (Compact tok), authorization = None\<rparr>
               = Inl (reply 401 (ErrorBody ''Invalid token''))"
proof -
  let ?tok = "\<lparr>payload = \<lparr>userId = au_id u, email = au_email u, iat = t0 div 1000,
                            exp = t0 div 1000 + seven_days\<rparr>, signed_with = secret\<rparr>"
  have g: "generateToken secret t0 u = Some ?tok"
    using assms by (rule generateToken_Some)
  have v: "verifyToken secret t r =
             (if t div 1000 < t0 div 1000 + seven_days
              then Inr \<lparr>userId = au_id u, email = au_email u, iat = t0 div 1000,
                        exp = t0 div 1000 + seven_days\<rparr>
              else Inl (reply 401 (ErrorBody ''Invalid token'')))"
    if "presented_token r = Some (Compact ?tok)" for r t
    using that assms by (auto simp: verifyToken_def)
  have p: "presented_token \<lparr>cookie_token = Some (Compact ?tok), authorization = None\<rparr>
             = Some (Compact ?tok)"
    by (simp add: presented_token_def)
  have pos: "0 < seven_days" by (simp add: seven_days_def)
  have a: "verifyToken secret t0 \<lparr>cookie_token = Some (Compact ?tok), authorization = None\<rparr>
               = Inr \<lparr>userId = au_id u, email = au_email u, iat = t0 div 1000,
                      exp = t0 div 1000 + seven_days\<rparr>"
    using v [OF p, of t0] pos by simp
  have b: "verifyToken secret (1000 * (t0 div 1000 + seven_days))
                \<lparr>cookie_token = Some (Compact ?tok), authorization = None\<rparr>
               = Inl (reply 401 (ErrorBody ''Invalid token''))"
    using v [OF p, of "1000 * (t0 div 1000 + seven_days)"] by simp
  from g v a b show ?thesis by blast
qed

theorem token_lifetime_witness:
  "\<exists>tok. generateToken ''s3cret'' 5000 carol = Some tok
      \<and> verifyToken ''s3cret'' 5000 \<lparr>cookie_token = Some (Compact tok), authorization = None\<rparr>
          = Inr \<lparr>userId = ''u1'', email = ''carol@example.org'', iat = 5, exp = 604805\<rparr>
      \<and> verifyToken ''s3cret'' 604804999
           \<lparr>cookie_token = None, authorization = Some [Garbage ''Bearer'', Compact tok]\<rparr>
          = Inr \<lparr>userId = ''u1'', email = ''carol@example.org'', iat = 5, exp = 604805\<rparr>
      \<and> verifyToken ''s3cret'' 604805000 \<lparr>cookie_token = Some (Compact tok), authorization = None\<rparr>
          = Inl (reply 401 (ErrorBody ''Invalid token''))"
proof -
  have s: "''s3cret'' \<noteq> []" by simp
  from token_lifetime [OF s, of 5000 carol] obtain tok where
    g: "generateToken ''s3cret'' 5000 carol = Some tok" and
    v: "\<And>r t. presented_token r = Some (Compact tok) \<Longrightarrow>
          verifyToken ''s3cret'' t r =
            (if t div 1000 < 5000 div 1000 + seven_days
             then Inr \<lparr>userId = au_id carol, email = au_email carol, iat = 5000 div 1000,
                       exp = 5000 div 1000 + seven_days\<rparr>
             else Inl (reply 401 (ErrorBody ''Invalid token'')))"
    by blast
  have p1: "presented_token \<lparr>cookie_token = Some (Compact tok), authorization = None\<rparr>
              = Some (Compact tok)"
    by (simp add: presented_token_def)
  have p2: "presented_token
              \<lparr>cookie_token = None, authorization = Some [Garbage ''Bearer'', Compact tok]\<rparr>
              = Some (Compact tok)"
    by (simp add: presented_token_def)
  have a: "verifyToken ''s3cret'' 5000 \<lparr>cookie_token = Some (Compact tok), authorization = None\<rparr>
          = Inr \<lparr>userId = ''u1'', email = ''carol@example.org'', iat = 5, exp = 604805\<rparr>"
    using v [OF p1, of 5000] by (simp add: seven_days_def carol_def)
  have b: "verifyToken ''s3cret'' 604804999
           \<lparr>cookie_token = None, authorization = Some [Garbage ''Bearer'', Compact tok]\<rparr>
          = Inr \<lparr>userId = ''u1'', email = ''carol@example.org'', iat = 5, exp = 604805\<rparr>"
    using v [OF p2, of 604804999] by (simp add: seven_days_def carol_def)
  have c: "verifyToken ''s3cret'' 604805000 \<lparr>cookie_token = Some (Compact tok), authorization = None\<rparr>
          = Inl (reply 401 (ErrorBody ''Invalid token''))"
    using v [OF p1, of 604805000] by (simp add: seven_days_def carol_def)
  from g a b c show ?thesis by blast
qed

section \<open>Sign-up\<close>

text \<open>
  C7, as the code has it. A sign-up that fails validation (email or password missing or
  empty, or a password shorter than six) answers 400 and writes nothing; one that the
  identity store refuses answers 400 with the store's message; one that succeeds answers
  with the cookie and the body \<open>{user: {id, email, created_at}, token}\<close> under status
  200, the default of \<open>res.json\<close>, not 201.
\<close>

theorem signup_responses:
  "(falsy (c_email b) \<or> falsy (c_password b) \<or> (\<exists>pw. c_password b = Some pw \<and> length pw < 6)
      \<longrightarrow> status (snd (post_signup s secret t0 create_user pfault b)) = 400
          \<and> fst (post_signup s secret t0 create_user pfault b) = s)
   \<and> (\<forall>mail pw msg. c_email b = Some mail \<and> c_password b = Some pw \<and> mail \<noteq> [] \<and> 6 \<le> length pw
         \<and> create_user mail pw = AuthError msg
      \<longrightarrow> post_signup s secret t0 create_user pfault b = (s, reply 400 (ErrorBody msg)))
   \<and> (\<forall>mail pw u. c_email b = Some mail \<and> c_password b = Some pw \<and> mail \<noteq> [] \<and> 6 \<le> length pw
         \<and> create_user mail pw = AuthOk u \<and> secret \<noteq> []
      \<longrightarrow> (\<exists>tok. generateToken secret t0 u = Some tok
             \<and> snd (post_signup s secret t0 create_user pfault b)
                 = \<lparr>status = 200,
                    body = AuthBody (au_id u) (au_email u) (au_created_at u) tok,
                    set_cookie = Some tok\<rparr>))"
proof (intro conjI allI impI)
  assume v: "falsy (c_email b) \<or> falsy (c_password b) \<or> (\<exists>pw. c_password b = Some pw \<and> length pw < 6)"
  then show "status (snd (post_signup s secret t0 create_user pfault b)) = 400"
    by (cases "c_email b"; cases "c_password b")
       (auto simp: post_signup_def reply_def)
  from v show "fst (post_signup s secret t0 create_user pfault b) = s"
    by (cases "c_email b"; cases "c_password b")
       (auto simp: post_signup_def reply_def)
next
  fix mail pw msg
  assume "c_email b = Some mail \<and> c_password b = Some pw \<and> mail \<noteq> [] \<and> 6 \<le> length pw
         \<and> create_user mail pw = AuthError msg"
  then show "post_signup s secret t0 create_user pfault b = (s, reply 400 (ErrorBody msg))"
    by (auto simp: post_signup_def)
next
  fix mail pw u
  assume a: "c_email b = Some mail \<and> c_password b = Some pw \<and> mail \<noteq> [] \<and> 6 \<le> length pw
         \<and> create_user mail pw = AuthOk u \<and> secret \<noteq> []"
  then have g: "generateToken secret t0 u =
     Some \<lparr>payload = \<lparr>userId = au_id u, email = au_email u, iat = t0 div 1000,
                       exp = t0 div 1000 + seven_days\<rparr>, signed_with = secret\<rparr>"
    by (simp add: generateToken_Some)
  from a have ne: "pw \<noteq> []" by auto
  from a ne have "snd (post_signup s secret t0 create_user pfault b)
      = auth_success u \<lparr>payload = \<lparr>userId = au_id u, email = au_email u, iat = t0 div 1000,
                       exp = t0 div 1000 + seven_days\<rparr>, signed_with = secret\<rparr>"
    by (simp add: post_signup_def g Let_def)
  with g show "\<exists>tok. generateToken secret t0 u = Some tok
             \<and> snd (post_signup s secret t0 create_user pfault b)
                 = \<lparr>status = 200,
                    body = AuthBody (au_id u) (au_email u) (au_created_at u) tok,
                    set_cookie = Some tok\<rparr>"
    by (simp add: auth_success_def)
qed

text \<open>
  C7 as stated fails on the status of a success: the handler sets none, so it is 200.
\<close>

theorem signup_success_status:
  "status (snd (post_signup empty_db ''s3cret'' 5000 (\<lambda>m p. AuthOk carol) False carol_form)) = 200
   \<and> status (snd (post_signup empty_db ''s3cret'' 5000 (\<lambda>m p. AuthOk carol) False carol_form)) \<noteq> 201
   \<and> (\<exists>tok. body (snd (post_signup empty_db ''s3cret'' 5000 (\<lambda>m p. AuthOk carol) False carol_form))
         = AuthBody ''u1'' ''carol@example.org'' ''2024-01-01T00:00:00Z'' tok)"
  by (simp add: post_signup_def carol_form_def carol_def empty_db_def generateToken_def
      jwt_sign_def auth_success_def Let_def)

theorem signup_responses_witness:
  "status (snd (post_signup empty_db ''s3cret'' 5000 (\<lambda>m p. AuthOk carol) False short_form)) = 400
   \<and> post_signup empty_db ''s3cret'' 5000 (\<lambda>m p. AuthError ''User already registered'') False carol_form
       = (empty_db, reply 400 (ErrorBody ''User already registered''))
   \<and> (\<exists>tok. snd (post_signup empty_db ''s3cret'' 5000 (\<lambda>m p. AuthOk carol) False carol_form)
        = \<lparr>status = 200, body = AuthBody ''u1'' ''carol@example.org'' ''2024-01-01T00:00:00Z'' tok,
           set_cookie = Some tok\<rparr>)"
proof -
  have a: "status (snd (post_signup empty_db ''s3cret'' 5000 (\<lambda>m p. AuthOk carol) False short_form)) = 400"
    using signup_responses [of short_form empty_db "''s3cret''" 5000 "\<lambda>m p. AuthOk carol" False]
    by (simp add: short_form_def)
  have b: "post_signup empty_db ''s3cret'' 5000 (\<lambda>m p. AuthError ''User already registered'') False carol_form
       = (empty_db, reply 400 (ErrorBody ''User already registered''))"
    using signup_responses [of carol_form empty_db "''s3cret''" 5000
        "\<lambda>m p. AuthError ''User already registered''" False]
    by (simp add: carol_form_def)
  have c: "\<exists>tok. snd (post_signup empty_db ''s3cret'' 5000 (\<lambda>m p. AuthOk carol) False carol_form)
        = \<lparr>status = 200, body = AuthBody ''u1'' ''carol@example.org'' ''2024-01-01T00:00:00Z'' tok,
           set_cookie = Some tok\<rparr>"
    using signup_responses [of carol_form empty_db "''s3cret''" 5000 "\<lambda>m p. AuthOk carol" False]
    by (auto simp: carol_form_def carol_def)
  from a b c show ?thesis by blast
qed

text \<open>
  C8. A sign-up whose password is shorter than six code units answers 400 and writes
  nothing (with the length message, or with the required-fields message when the email is
  missing or the password empty). With a password of six or more, the length check lets
  the request through: a missing email still answers 400, and otherwise the answer is
  the one that the identity store's reply determines.
\<close>

theorem password_length_check:
  "(\<forall>pw. c_password b = Some pw \<and> length pw < 6 \<longrightarrow>
       post_signup s secret t0 create_user pfault b =
         (s, reply 400 (ErrorBody (if falsy (c_email b) \<or> pw = []
                                   then ''Email and password required''
                                   else ''Password must be at least 6 characters''))))
   \<and> (\<forall>pw. c_password b = Some pw \<and> 6 \<le> length pw \<and> falsy (c_email b) \<longrightarrow>
       post_signup s secret t0 create_user pfault b =
         (s, reply 400 (ErrorBody ''Email and password required'')))
   \<and> (\<forall>mail pw. c_password b = Some pw \<and> 6 \<le> length pw \<and> c_email b = Some mail \<and> mail \<noteq> [] \<longrightarrow>
       post_signup s secret t0 create_user pfault b =
         (case create_user mail pw of
            AuthError msg \<Rightarrow> (s, reply 400 (ErrorBody msg))
          | AuthOk u \<Rightarrow>
              (fst (insert_profile s pfault (new_profile u)),
               case generateToken secret t0 u of
                 None \<Rightarrow> reply 500 (ErrorBody ''Internal server error'')
               | Some tok \<Rightarrow> auth_success u tok)))"
proof (intro conjI allI impI)
  fix pw
  assume "c_password b = Some pw \<and> length pw < 6"
  then show "post_signup s secret t0 create_user pfault b =
         (s, reply 400 (ErrorBody (if falsy (c_email b) \<or> pw = []
                                   then ''Email and password required''
                                   else ''Password must be at least 6 characters'')))"
    by (cases "c_email b") (auto simp: post_signup_def)
next
  fix pw
  assume "c_password b = Some pw \<and> 6 \<le> length pw \<and> falsy (c_email b)"
  then show "post_signup s secret t0 create_user pfault b =
         (s, reply 400 (ErrorBody ''Email and password required''))"
    by (cases "c_email b") (auto simp: post_signup_def)
next
  fix mail pw
  assume a: "c_password b = Some pw \<and> 6 \<le> length pw \<and> c_email b = Some mail \<and> mail \<noteq> []"
  then have "pw \<noteq> []" by auto
  with a show "post_signup s secret t0 create_user pfault b =
         (case create_user mail pw of
            AuthError msg \<Rightarrow> (s, reply 400 (ErrorBody msg))
          | AuthOk u \<Rightarrow>
              (fst (insert_profile s pfault (new_profile u)),
               case generateToken secret t0 u of
                 None \<Rightarrow> reply 500 (ErrorBody ''Internal server error'')
               | Some tok \<Rightarrow> auth_success u tok))"
    by (simp add: post_signup_def Let_def split: auth_reply.splits option.splits)
qed

theorem password_length_check_witness:
  "post_signup empty_db ''s3cret'' 5000 (\<lambda>m p. AuthOk carol) False short_form
     = (empty_db, reply 400 (ErrorBody ''Password must be at least 6 characters''))
   \<and> status (snd (post_signup empty_db ''s3cret'' 5000 (\<lambda>m p. AuthOk carol) False carol_form)) = 200
   \<and> post_signup empty_db ''s3cret'' 5000 (\<lambda>m p. AuthOk carol) False
        \<lparr>c_email = None, c_password = Some [0x73, 0x65, 0x63, 0x72, 0x65, 0x74]\<rparr>
     = (empty_db, reply 400 (ErrorBody ''Email and password required''))"
proof -
  have a: "post_signup empty_db ''s3cret'' 5000 (\<lambda>m p. AuthOk carol) False short_form
     = (empty_db, reply 400 (ErrorBody ''Password must be at least 6 characters''))"
    using password_length_check [of short_form empty_db "''s3cret''" 5000 "\<lambda>m p. AuthOk carol" False]
    by (simp add: short_form_def)
  have b: "status (snd (post_signup empty_db ''s3cret'' 5000 (\<lambda>m p. AuthOk carol) False carol_form)) = 200"
    using password_length_check [of carol_form empty_db "''s3cret''" 5000 "\<lambda>m p. AuthOk carol" False]
    by (simp add: carol_form_def generateToken_def jwt_sign_def auth_success_def)
  have c: "post_signup empty_db ''s3cret'' 5000 (\<lambda>m p. AuthOk carol) False
        \<lparr>c_email = None, c_password = Some [0x73, 0x65, 0x63, 0x72, 0x65, 0x74]\<rparr>
     = (empty_db, reply 400 (ErrorBody ''Email and password required''))"
    using password_length_check [of "\<lparr>c_email = None, c_password = Some [0x73, 0x65, 0x63, 0x72, 0x65, 0x74]\<rparr>"
        empty_db "''s3cret''" 5000 "\<lambda>m p. AuthOk carol" False]
    by simp
  from a b c show ?thesis by blast
qed

section \<open>The current user and the profile\<close>

lemma select_profile_missing:
  assumes "\<forall>p \<in> set (profiles s). p_id p \<noteq> uid"
  shows "\<exists>e. select_profile s f uid = Inl e"
proof -
  from assms have "filter (\<lambda>p. p_id p = uid) (profiles s) = []"
    by (simp add: filter_empty_conv)
  then show ?thesis by (simp add: select_profile_def)
qed

lemma select_profile_after_insert:
  assumes "\<forall>p \<in> set (profiles s). p_id p \<noteq> p_id row"
  shows "select_profile (fst (insert_profile s False row)) False (p_id row) = Inr row"
proof -
  from assms have e: "filter (\<lambda>p. p_id p = p_id row) (profiles s) = []"
    by (simp add: filter_empty_conv)
  from assms have n: "p_id row \<notin> p_id ` set (profiles s)" by (metis imageE)
  show ?thesis using e n by (simp add: insert_profile_def select_profile_def)
qed

lemma select_profile_present:
  assumes "distinct (map p_id (profiles s))" "p \<in> set (profiles s)"
  shows "select_profile s False (p_id p) = Inr p"
  using filter_key_unique [OF assms] by (simp add: select_profile_def)

lemma profiles_drawings_insert [simp]:
  "drawings (fst (insert_profile s f row)) = drawings s"
  by (simp add: insert_profile_def)

lemma insert_profile_refused:
  assumes "fault \<or> (\<exists>p \<in> set (profiles s). p_id p = p_id row)"
  shows "fst (insert_profile s fault row) = s"
proof -
  from assms have "fault \<or> p_id row \<in> p_id ` set (profiles s)"
    by (metis imageI)
  then show ?thesis by (auto simp: insert_profile_def)
qed

lemma signin_store:
  assumes d: "distinct (map p_id (profiles s))"
  shows "(if (\<exists>p \<in> set (profiles s). p_id p = au_id u) \<or> \<not> fault2
          then \<exists>p. p_id p = au_id u \<and>
                 select_profile
                   (case select_profile s fault1 (au_id u) of
                      Inl e \<Rightarrow> fst (insert_profile s fault2 (new_profile u))
                    | Inr p \<Rightarrow> s) False (au_id u) = Inr p
          else (case select_profile s fault1 (au_id u) of
                      Inl e \<Rightarrow> fst (insert_profile s fault2 (new_profile u))
                    | Inr p \<Rightarrow> s) = s
               \<and> (\<forall>p \<in> set (profiles s). p_id p \<noteq> au_id u))"
proof (cases "\<exists>p \<in> set (profiles s). p_id p = au_id u")
  case True
  then obtain p where p: "p \<in> set (profiles s)" "p_id p = au_id u" by blast
  have here: "select_profile s False (au_id u) = Inr p"
    using select_profile_present [OF d p(1)] p(2) by simp
  have i: "p_id (new_profile u) = au_id u" by (simp add: new_profile_def)
  have same: "fst (insert_profile s fault2 (new_profile u)) = s"
    using insert_profile_refused [of fault2 s "new_profile u"] True i by simp
  have "(case select_profile s fault1 (au_id u) of
                      Inl e \<Rightarrow> fst (insert_profile s fault2 (new_profile u))
                    | Inr p \<Rightarrow> s) = s"
    by (simp add: same split: sum.splits)
  with True here p(2) show ?thesis by auto
next
  case False
  then have m: "\<forall>p \<in> set (profiles s). p_id p \<noteq> au_id u" by blast
  then obtain e where e: "select_profile s fault1 (au_id u) = Inl e"
    using select_profile_missing [of s "au_id u" fault1] by blast
  have i: "p_id (new_profile u) = au_id u" by (simp add: new_profile_def)
  show ?thesis
  proof (cases fault2)
    case True
    have "fst (insert_profile s fault2 (new_profile u)) = s"
      using insert_profile_refused [of fault2 s "new_profile u"] True by simp
    with False True e m show ?thesis by simp
  next
    case nf: False
    from m have m': "\<forall>p \<in> set (profiles s). p_id p \<noteq> p_id (new_profile u)" by (simp add: i)
    from select_profile_after_insert [OF m'] nf e i show ?thesis by auto
  qed
qed

text \<open>
  C4, as the code has it. The read of the current user makes one query and creates
  nothing: when no profile exists for the identity it answers 404 "User not found". The
  repair is attempted by sign-in, and only as far as the store lets it: when the profile
  query yields no row, sign-in issues an insert and does not look at its result, and it
  answers 200 whether or not the queries fail. A read of the current user after such a
  sign-in answers 200 with the profile and the identity's drawings exactly when the
  profile was there before or the insert did not fail; otherwise sign-in has left the
  store as it was and the read answers 404.
\<close>

theorem current_user_read:
  "((\<forall>p \<in> set (profiles s). p_id p \<noteq> uid) \<longrightarrow>
       get_me s f uid = reply 404 (ErrorBody ''User not found''))
   \<and> (\<forall>mail pw u. distinct (map p_id (profiles s)) \<and> mail \<noteq> [] \<and> pw \<noteq> []
         \<and> sign_in mail pw = AuthOk u \<and> secret \<noteq> [] \<longrightarrow>
       status (snd (post_signin s secret t0 sign_in fault1 fault2
                      \<lparr>c_email = Some mail, c_password = Some pw\<rparr>)) = 200
       \<and> (if (\<exists>p \<in> set (profiles s). p_id p = au_id u) \<or> \<not> fault2
          then \<exists>p. p_id p = au_id u
                 \<and> get_me (fst (post_signin s secret t0 sign_in fault1 fault2
                                   \<lparr>c_email = Some mail, c_password = Some pw\<rparr>)) False (au_id u)
                     = reply 200 (MeBody p (filter (\<lambda>d. user_id d = au_id u) (drawings s)))
          else fst (post_signin s secret t0 sign_in fault1 fault2
                      \<lparr>c_email = Some mail, c_password = Some pw\<rparr>) = s
               \<and> get_me (fst (post_signin s secret t0 sign_in fault1 fault2
                                 \<lparr>c_email = Some mail, c_password = Some pw\<rparr>)) False (au_id u)
                   = reply 404 (ErrorBody ''User not found'')))"
proof (intro conjI allI impI)
  assume "\<forall>p \<in> set (profiles s). p_id p \<noteq> uid"
  then obtain e where "select_profile s f uid = Inl e"
    using select_profile_missing by blast
  then show "get_me s f uid = reply 404 (ErrorBody ''User not found'')"
    by (simp add: get_me_def)
next
  fix mail pw u
  assume a: "distinct (map p_id (profiles s)) \<and> mail \<noteq> [] \<and> pw \<noteq> []
         \<and> sign_in mail pw = AuthOk u \<and> secret \<noteq> []"
  let ?s' = "case select_profile s fault1 (au_id u) of
                Inl e \<Rightarrow> fst (insert_profile s fault2 (new_profile u))
              | Inr p \<Rightarrow> s"
  let ?b = "\<lparr>c_email = Some mail, c_password = Some pw\<rparr>"
  have tok: "generateToken secret t0 u = Some \<lparr>payload = \<lparr>userId = au_id u, email = au_email u,
               iat = t0 div 1000, exp = t0 div 1000 + seven_days\<rparr>, signed_with = secret\<rparr>"
    using a by (simp add: generateToken_Some)
  have r: "fst (post_signin s secret t0 sign_in fault1 fault2 ?b) = ?s'"
    using a tok by (simp add: post_signin_def Let_def)
  have st: "status (snd (post_signin s secret t0 sign_in fault1 fault2 ?b)) = 200"
    using a tok by (simp add: post_signin_def Let_def auth_success_def)
  from st show "status (snd (post_signin s secret t0 sign_in fault1 fault2 ?b)) = 200" .
  have dr: "drawings ?s' = drawings s" by (simp split: sum.splits)
  from a have d: "distinct (map p_id (profiles s))" by simp
  show "if (\<exists>p \<in> set (profiles s). p_id p = au_id u) \<or> \<not> fault2
          then \<exists>p. p_id p = au_id u
                 \<and> get_me (fst (post_signin s secret t0 sign_in fault1 fault2 ?b)) False (au_id u)
                     = reply 200 (MeBody p (filter (\<lambda>d. user_id d = au_id u) (drawings s)))
          else fst (post_signin s secret t0 sign_in fault1 fault2 ?b) = s
               \<and> get_me (fst (post_signin s secret t0 sign_in fault1 fault2 ?b)) False (au_id u)
                   = reply 404 (ErrorBody ''User not found'')"
  proof (cases "(\<exists>p \<in> set (profiles s). p_id p = au_id u) \<or> \<not> fault2")
    case True
    with signin_store [OF d, of u fault2 fault1] obtain p where
      p: "p_id p = au_id u" "select_profile ?s' False (au_id u) = Inr p"
      by auto
    have "get_me ?s' False (au_id u)
            = reply 200 (MeBody p (filter (\<lambda>d. user_id d = au_id u) (drawings s)))"
      by (simp add: get_me_def p(2) dr)
    with p(1) True show ?thesis unfolding r by auto
  next
    case False
    with signin_store [OF d, of u fault2 fault1] have
      same: "?s' = s" and miss: "\<forall>p \<in> set (profiles s). p_id p \<noteq> au_id u"
      by auto
    obtain e where "select_profile s False (au_id u) = Inl e"
      using select_profile_missing [OF miss] by blast
    then have "get_me s False (au_id u) = reply 404 (ErrorBody ''User not found'')"
      by (simp add: get_me_def)
    with False same show ?thesis unfolding r by simp
  qed
qed

text \<open>
  C4 as stated fails: after a sign-up whose profile insert failed, the read of the
  current user answers 404.
\<close>

theorem me_after_failed_profile_creation:
  "status (snd (post_signup empty_db ''s3cret'' 5000 (\<lambda>m p. AuthOk carol) True carol_form)) = 200
   \<and> get_me (fst (post_signup empty_db ''s3cret'' 5000 (\<lambda>m p. AuthOk carol) True carol_form))
        False ''u1'' = reply 404 (ErrorBody ''User not found'')"
  by (simp add: post_signup_def carol_form_def carol_def empty_db_def generateToken_def
      jwt_sign_def auth_success_def Let_def insert_profile_def get_me_def select_profile_def)

theorem current_user_read_witness:
  "get_me empty_db False ''u1'' = reply 404 (ErrorBody ''User not found'')
   \<and> status (snd (post_signin empty_db ''s3cret'' 5000 (\<lambda>m p. AuthOk carol) False False carol_form)) = 200
   \<and> status (get_me (fst (post_signin empty_db ''s3cret'' 5000 (\<lambda>m p. AuthOk carol) False False
                             carol_form)) False ''u1'') = 200
   \<and> status (snd (post_signin empty_db ''s3cret'' 5000 (\<lambda>m p. AuthOk carol) False True carol_form)) = 200
   \<and> get_me (fst (post_signin empty_db ''s3cret'' 5000 (\<lambda>m p. AuthOk carol) False True
                     carol_form)) False ''u1'' = reply 404 (ErrorBody ''User not found'')"
proof -
  have h: "\<forall>p \<in> set (profiles empty_db). p_id p \<noteq> ''u1''" by (simp add: empty_db_def)
  have d: "distinct (map p_id (profiles empty_db))" by (simp add: empty_db_def)
  have n: "\<not> (\<exists>p \<in> set (profiles empty_db). p_id p = ''u1'')" by (simp add: empty_db_def)
  have i: "au_id carol = ''u1''" by (simp add: carol_def)
  have f: "carol_form = \<lparr>c_email = Some [0x63, 0x40, 0x65],
                          c_password = Some [0x73, 0x65, 0x63, 0x72, 0x65, 0x74]\<rparr>"
    by (simp add: carol_form_def)
  note ok = current_user_read [of empty_db "''u1''" False "\<lambda>m p. AuthOk carol" "''s3cret''" 5000
      False False]
  note ko = current_user_read [of empty_db "''u1''" False "\<lambda>m p. AuthOk carol" "''s3cret''" 5000
      False True]
  have a: "get_me empty_db False ''u1'' = reply 404 (ErrorBody ''User not found'')"
    using ok h by blast
  from ok d n have b: "status (snd (post_signin empty_db ''s3cret'' 5000 (\<lambda>m p. AuthOk carol) False False carol_form)) = 200
     \<and> (\<exists>p. p_id p = au_id carol
             \<and> get_me (fst (post_signin empty_db ''s3cret'' 5000 (\<lambda>m p. AuthOk carol) False False
                               carol_form)) False (au_id carol)
                 = reply 200 (MeBody p (filter (\<lambda>d. user_id d = au_id carol) (drawings empty_db))))"
    unfolding f by (simp add: i)
  from ko d n have c: "status (snd (post_signin empty_db ''s3cret'' 5000 (\<lambda>m p. AuthOk carol) False True carol_form)) = 200
     \<and> get_me (fst (post_signin empty_db ''s3cret'' 5000 (\<lambda>m p. AuthOk carol) False True
                               carol_form)) False (au_id carol)
                 = reply 404 (ErrorBody ''User not found'')"
    unfolding f by (simp add: i)
  from a b c show ?thesis by (auto simp: i reply_def)
qed

section \<open>Debounced and manual saves\<close>

lemma run_Nil [simp]: "run s [] = s"
  by (simp add: run_def)

lemma run_Cons [simp]: "run s (e # evs) = run (step s e) evs"
  by (simp add: run_def)

lemma run_append: "run s (xs @ ys) = run (run s xs) ys"
  by (simp add: run_def)

lemma burst_Nil [simp]: "burst [] = []"
  by (simp add: burst_def)

lemma burst_Cons [simp]: "burst ((d, v) # ms) = Wait d # Mutate v # burst ms"
  by (simp add: burst_def)

lemma step_mutate_armed:
  assumes "editorRef s \<noteq> None"
  shows "armed (step s (Mutate v))" and "editorRef (step s (Mutate v)) = Some v"
    and "writes (step s (Mutate v)) = writes s" and "canvas_id (step s (Mutate v)) = canvas_id s"
  using assms by (auto simp: armed_def on_change_def)

lemma step_wait_short:
  assumes "armed s" "d < debounce"
  shows "armed (step (step s (Wait d)) (Mutate v))"
    and "editorRef (step (step s (Wait d)) (Mutate v)) = Some v"
    and "writes (step (step s (Wait d)) (Mutate v)) = writes s"
    and "canvas_id (step (step s (Wait d)) (Mutate v)) = canvas_id s"
  using assms by (auto simp: armed_def Let_def on_change_def)

lemma step_wait_idle:
  assumes "\<not> timer_live s"
  shows "editorRef (step s (Wait d)) = editorRef s" and "writes (step s (Wait d)) = writes s"
    and "canvas_id (step s (Wait d)) = canvas_id s" and "\<not> timer_live (step s (Wait d))"
  using assms by (auto simp: Let_def split: option.splits)

lemma burst_keeps_armed:
  assumes "armed s" "\<forall>m \<in> set ms. fst m < debounce"
  shows "armed (run s (burst ms)) \<and> writes (run s (burst ms)) = writes s
       \<and> canvas_id (run s (burst ms)) = canvas_id s
       \<and> editorRef (run s (burst ms)) = (if ms = [] then editorRef s else Some (snd (last ms)))"
  using assms
proof (induction ms arbitrary: s)
  case Nil
  then show ?case by simp
next
  case (Cons m ms)
  obtain d v where m: "m = (d, v)" by (cases m)
  let ?s2 = "step (step s (Wait d)) (Mutate v)"
  from Cons.prems m have d: "d < debounce" by simp
  have a2: "armed ?s2" and e2: "editorRef ?s2 = Some v" and w2: "writes ?s2 = writes s"
    and c2: "canvas_id ?s2 = canvas_id s"
    using step_wait_short [OF Cons.prems(1) d, of v] by simp_all
  from Cons.prems have rest: "\<forall>m \<in> set ms. fst m < debounce" by simp
  from Cons.IH [OF a2 rest] e2 w2 c2 m show ?case by simp
qed

lemma wait_fires:
  assumes "armed s" "debounce \<le> q" "canvas_id s \<noteq> []" "editorRef s = Some snap"
  shows "writes (step s (Wait q)) = writes s @ [(canvas_id s, snap)]"
    and "\<not> timer_live (step s (Wait q))"
  using assms by (auto simp: armed_def Let_def saveCanvas_def)

text \<open>
  C3. Start from a session with the editor mounted and no timer pending. After a burst of
  one or more mutations, each but the first less than the debounce interval after the one
  before, no write has been made; once a debounce interval has passed without a mutation,
  exactly one write has been made, with the snapshot that the last mutation left; and
  more time passing adds no write.
\<close>

theorem debounce_coalesces:
  assumes "editorRef s \<noteq> None" and "canvas_id s \<noteq> []" and "\<not> timer_live s"
    and "ms \<noteq> []" and "\<forall>m \<in> set (tl ms). fst m < debounce" and "debounce \<le> q"
  shows "writes (run s (burst ms)) = writes s
       \<and> writes (run s (burst ms @ [Wait q])) = writes s @ [(canvas_id s, snd (last ms))]
       \<and> writes (run s (burst ms @ [Wait q, Wait r])) = writes s @ [(canvas_id s, snd (last ms))]"
proof -
  from assms(4) obtain d v rest where ms: "ms = (d, v) # rest"
    by (cases ms) auto
  let ?s1 = "step s (Wait d)"
  let ?s2 = "step ?s1 (Mutate v)"
  have e1: "editorRef ?s1 \<noteq> None" and w1: "writes ?s1 = writes s" and c1: "canvas_id ?s1 = canvas_id s"
    using step_wait_idle [OF assms(3), of d] assms(1) by simp_all
  have a2: "armed ?s2" and e2: "editorRef ?s2 = Some v" and w2: "writes ?s2 = writes s"
    and c2: "canvas_id ?s2 = canvas_id s"
    using step_mutate_armed [OF e1, of v] w1 c1 by simp_all
  from assms(5) ms have short: "\<forall>m \<in> set rest. fst m < debounce" by simp
  let ?s3 = "run ?s2 (burst rest)"
  have r: "run s (burst ms) = ?s3" by (simp add: ms)
  have inv: "armed ?s3" "writes ?s3 = writes s" "canvas_id ?s3 = canvas_id s"
    "editorRef ?s3 = Some (snd (last ms))"
    using burst_keeps_armed [OF a2 short] e2 w2 c2 ms by simp_all
  have cid: "canvas_id ?s3 \<noteq> []" using inv(3) assms(2) by simp
  have f: "writes (step ?s3 (Wait q)) = writes s @ [(canvas_id s, snd (last ms))]"
    and nl: "\<not> timer_live (step ?s3 (Wait q))"
    using wait_fires [OF inv(1) assms(6) cid inv(4)] inv(2,3) by simp_all
  have g: "writes (step (step ?s3 (Wait q)) (Wait r)) = writes (step ?s3 (Wait q))"
    using step_wait_idle(2) [OF nl] by simp
  have x1: "writes (run s (burst ms)) = writes s" using r inv(2) by simp
  have x2: "writes (run s (burst ms @ [Wait q])) = writes s @ [(canvas_id s, snd (last ms))]"
    using f by (simp add: run_append r)
  have x3: "writes (run s (burst ms @ [Wait q, Wait r])) = writes s @ [(canvas_id s, snd (last ms))]"
    using f g by (simp add: run_append r)
  from x1 x2 x3 show ?thesis by simp
qed

theorem debounce_coalesces_witness:
  "writes (run (loaded ''c1'' (JObj [])) (burst three_edits)) = []
   \<and> writes (run (loaded ''c1'' (JObj [])) (burst three_edits @ [Wait 3000])) = [(''c1'', JStr [0x61, 0x62, 0x63])]
   \<and> writes (run (loaded ''c1'' (JObj [])) (burst three_edits @ [Wait 3000, Wait 60000]))
       = [(''c1'', JStr [0x61, 0x62, 0x63])]"
proof -
  have h1: "editorRef (loaded ''c1'' (JObj [])) \<noteq> None" by (simp add: loaded_def)
  have h2: "canvas_id (loaded ''c1'' (JObj [])) \<noteq> []" by (simp add: loaded_def)
  have h3: "\<not> timer_live (loaded ''c1'' (JObj []))" by (simp add: loaded_def)
  have h4: "three_edits \<noteq> []" by (simp add: three_edits_def)
  have h5: "\<forall>m \<in> set (tl three_edits). fst m < debounce"
    by (simp add: three_edits_def debounce_def)
  have h6: "debounce \<le> 3000" by (simp add: debounce_def)
  have l: "snd (last three_edits) = JStr [0x61, 0x62, 0x63]" by (simp add: three_edits_def)
  have w: "writes (loaded ''c1'' (JObj [])) = []" "canvas_id (loaded ''c1'' (JObj [])) = ''c1''"
    by (simp_all add: loaded_def)
  show ?thesis
    using debounce_coalesces [OF h1 h2 h3 h4 h5 h6, of 60000] by (simp add: l w)
qed

text \<open>
  C2, as the code has it. Whatever the status, also while \<open>Saving\<close>, the keyboard
  shortcut makes exactly one write at once, with the current snapshot: the pending timer
  is cleared, the writes in flight grow by one, and the settling of a write makes no
  further write. There is no queued intent. The save button does nothing while the status
  is \<open>Saving\<close>.
\<close>

theorem manual_save_immediate:
  assumes "editorRef s = Some snap" and "canvas_id s \<noteq> []"
  shows "writes (step s KeyboardSave) = writes s @ [(canvas_id s, snap)]
       \<and> in_flight (step s KeyboardSave) = Suc (in_flight s)
       \<and> saveStatus (step s KeyboardSave) = Saving
       \<and> saveTimeoutRef (step s KeyboardSave) = None
       \<and> writes (step (step s KeyboardSave) (Settled ok)) = writes s @ [(canvas_id s, snap)]
       \<and> (saveStatus s = Saving \<longrightarrow> step s ButtonClick = s)"
  using assms
  by (auto simp: handleManualSave_def saveCanvas_def settle_def split: option.splits)

theorem manual_save_immediate_witness:
  "editorRef saving_session = Some JNull \<and> canvas_id saving_session \<noteq> []
   \<and> saveStatus saving_session = Saving \<and> in_flight saving_session = 1
   \<and> writes (step saving_session KeyboardSave) = [(''c1'', JNull), (''c1'', JNull)]
   \<and> in_flight (step saving_session KeyboardSave) = 2
   \<and> writes (step (step saving_session KeyboardSave) (Settled True))
       = [(''c1'', JNull), (''c1'', JNull)]
   \<and> step saving_session ButtonClick = saving_session"
proof -
  have e: "saving_session =
             \<lparr>clock = 3000, canvas_id = ''c1'', editorRef = Some JNull, saveStatus = Saving,
              error_msg = [], saveTimeoutRef = Some 3000, timer_live = False,
              writes = [(''c1'', JNull)], in_flight = 1\<rparr>"
    by (simp add: saving_session_def loaded_def on_change_def debounce_def saveCanvas_def Let_def)
  have h1: "editorRef saving_session = Some JNull" by (simp add: e)
  have h2: "canvas_id saving_session \<noteq> []" by (simp add: e)
  have h3: "saveStatus saving_session = Saving" by (simp add: e)
  have w: "writes saving_session = [(''c1'', JNull)]" "canvas_id saving_session = ''c1''"
    "in_flight saving_session = 1"
    by (simp_all add: e)
  show ?thesis
    using h1 h2 h3 manual_save_immediate [OF h1 h2, of True] by (simp add: w)
qed

text \<open>
  C2 as stated fails: the shortcut pressed while the debounced write is in flight puts
  a second write in flight.
\<close>

theorem two_writes_in_flight:
  "saveStatus (run (loaded ''c1'' (JObj [])) [Mutate JNull, Wait 3000]) = Saving
   \<and> in_flight (run (loaded ''c1'' (JObj [])) [Mutate JNull, Wait 3000]) = 1
   \<and> in_flight (run (loaded ''c1'' (JObj [])) [Mutate JNull, Wait 3000, KeyboardSave]) = 2"
  by (simp add: loaded_def on_change_def debounce_def saveCanvas_def handleManualSave_def Let_def)

end
